theory Spec2Isabelle
  imports Main "HOL-Library.Word"
begin

section \<open>Declarations for debuginfo.cpp: the sectioned-address helper\<close>

text \<open>
  The header declares three entry points of debuginfo.cpp and defines one function,
  \<^verbatim>\<open>makeAddress\<close>:
  \<^verbatim>\<open>
  static object::SectionedAddress makeAddress(
          llvm::object::SectionRef Section, uint64_t address) JL_NOTSAFEPOINT
  {
      return object::SectionedAddress{address, Section.getIndex()};
  }
  \<close>
  Only this function has a body, so it is the only one embedded here.
\<close>

type_synonym uint64_t = "64 word"

text \<open>
  Modelled from the spec: the aggregate type \<^verbatim>\<open>object::SectionedAddress\<close> is declared by
  the LLVM headers, not by this repository. The spec describes it as a raw address paired
  with the index of the object-file section that contains it, and the brace initialiser of
  \<^verbatim>\<open>makeAddress\<close> fills the address first and the section index second. The index has
  the type that the section accessor returns, which the header does not show: it is a type
  parameter.
\<close>

record 'idx SectionedAddress =
  Address :: uint64_t
  SectionIndex :: 'idx

text \<open>
  The member function \<^verbatim>\<open>getIndex\<close> belongs to \<^verbatim>\<open>llvm::object::SectionRef\<close>, which
  this repository does not declare either, so the accessor is a parameter of the model.
  A section reference is a value of an arbitrary type \<open>'sec\<close>; everything it refers to
  (the object file behind it, and the rest of the memory of the process) is the program
  state \<open>'st\<close>. A call of the accessor on a section in a state either does not return
  normally (\<open>None\<close>) or returns an index together with the state it leaves behind.
\<close>

type_synonym ('sec, 'idx, 'st) getIndex_fn = "'sec \<Rightarrow> 'st \<Rightarrow> ('idx \<times> 'st) option"

text \<open>
  The body is a single return statement: it calls the accessor on its by-value copy of the
  section and builds the aggregate from the address argument and the index returned. The
  annotation \<^verbatim>\<open>JL_NOTSAFEPOINT\<close> is a macro defined elsewhere; it adds no statement
  to the body.
\<close>

definition makeAddress ::
  "('sec, 'idx, 'st) getIndex_fn \<Rightarrow> 'sec \<Rightarrow> uint64_t \<Rightarrow> 'st
     \<Rightarrow> ('idx SectionedAddress \<times> 'st) option" where
  "makeAddress getIndex Section address st =
     (case getIndex Section st of
        None \<Rightarrow> None
      | Some (idx, st') \<Rightarrow> Some (\<lparr>Address = address, SectionIndex = idx\<rparr>, st'))"


section \<open>Properties of makeAddress\<close>

text \<open>
  Claim C1. For every section reference and every 64-bit address, \<^verbatim>\<open>makeAddress\<close>
  returns the sectioned address whose address component is the address given and whose
  section-index component is the value returned by the accessor call
  \<^verbatim>\<open>Section.getIndex()\<close>: it pairs the raw address with the index of the section.
\<close>

theorem makeAddress_pairs_address_with_index:
  assumes "getIndex Section st = Some (idx, st')"
  shows "makeAddress getIndex Section address st
           = Some (\<lparr>Address = address, SectionIndex = idx\<rparr>, st')"
  using assms by (simp add: makeAddress_def)

text \<open>
  Claim C1 at a concrete input: sections are pairs of an object number and a section
  number, the accessor reads the section number, the address is \<open>4096\<close>.
\<close>

theorem makeAddress_pairs_address_with_index_witness:
  "(\<lambda>S st. Some (snd S, st)) (1::nat, 7::uint64_t) (0::nat) = Some (7, 0)
   \<and> makeAddress (\<lambda>S st. Some (snd S, st)) (1::nat, 7::uint64_t) 4096 (0::nat)
       = Some (\<lparr>Address = 4096, SectionIndex = 7\<rparr>, 0)"
  using makeAddress_pairs_address_with_index
    [of "\<lambda>S st. Some (snd S, st)" "(1::nat, 7::uint64_t)" "0::nat" 7 0 4096]
  by simp

text \<open>
  Claim C8. \<^verbatim>\<open>makeAddress\<close> depends on its section argument only through the index:
  when the accessor returns the same index for two section references, the two calls with
  the same address return the same sectioned address. With the two references equal this
  is determinism: equal inputs give equal results.
\<close>

theorem makeAddress_depends_only_on_index:
  assumes "getIndex S1 st = Some (idx, st1)"
    and "getIndex S2 st = Some (idx, st2)"
  shows "\<exists>r. makeAddress getIndex S1 address st = Some (r, st1)
            \<and> makeAddress getIndex S2 address st = Some (r, st2)"
  using assms by (simp add: makeAddress_def)

text \<open>
  Claim C8 at a concrete input: two different sections, of objects \<open>1\<close> and \<open>2\<close>, that
  both have index \<open>7\<close>.
\<close>

theorem makeAddress_depends_only_on_index_witness:
  "(1::nat, 7::uint64_t) \<noteq> (2, 7)
   \<and> (\<lambda>S st. Some (snd S, st)) (1::nat, 7::uint64_t) (0::nat) = Some (7, 0)
   \<and> (\<lambda>S st. Some (snd S, st)) (2::nat, 7::uint64_t) (0::nat) = Some (7, 0)
   \<and> (\<exists>r. makeAddress (\<lambda>S st. Some (snd S, st)) (1::nat, 7::uint64_t) 4096 (0::nat)
              = Some (r, 0)
          \<and> makeAddress (\<lambda>S st. Some (snd S, st)) (2::nat, 7::uint64_t) 4096 (0::nat)
              = Some (r, 0))"
  using makeAddress_depends_only_on_index
    [of "\<lambda>S st. Some (snd S, st)" "(1::nat, 7::uint64_t)" "0::nat" 7 0 "(2, 7)" 0 4096]
  by simp




text \<open>
  Claim C10, as stated, at a concrete input. The claim says that the call returns a
  sectioned address for every section reference. Here the accessor returns on the
  positions of the table only, and the section reference is position \<open>5\<close> of a table with
  two entries: the accessor call does not return, and neither does \<^verbatim>\<open>makeAddress\<close>,
  whose body calls the accessor without a guard.
\<close>

theorem makeAddress_total_counterexample:
  "makeAddress (\<lambda>S st. if S < length st then Some (st ! S, st) else None)
     (5::nat) 4096 [3, 7::uint64_t] = None"
  by (simp add: makeAddress_def)

text \<open>
  Claim C10, amended. For every section reference, every 64-bit address and every program
  state, \<^verbatim>\<open>makeAddress\<close> returns a sectioned address exactly when its one call
  \<^verbatim>\<open>Section.getIndex()\<close> returns: the body has no error, failure or unreachable branch
  of its own, and it fails on exactly the section references on which the accessor fails.
\<close>

theorem makeAddress_returns_iff_accessor_returns:
  "(makeAddress getIndex Section address st = None) = (getIndex Section st = None)"
  by (simp add: makeAddress_def split: option.split)

text \<open>
  Claim C10, amended, at a concrete input: the largest 64-bit address and position \<open>0\<close>
  of the table, on which the accessor returns, so \<^verbatim>\<open>makeAddress\<close> returns.
\<close>

theorem makeAddress_returns_iff_accessor_returns_witness:
  "makeAddress (\<lambda>S st. if S < length st then Some (st ! S, st) else None)
     (0::nat) (- 1) [3, 7::uint64_t] \<noteq> None"
  using makeAddress_returns_iff_accessor_returns
    [of "\<lambda>S st. if S < length st then Some (st ! S, st) else None"
        "0::nat" "- 1" "[3, 7::uint64_t]"]
  by simp

end
